theory Spec2Isabelle
  imports Complex_Main "HOL-Library.Sublist"
begin

section \<open>JavaScript numbers\<close>

text \<open>
  A value of the TypeScript type \<open>number\<close>: not-a-number, the two infinities, or a
  finite value. Finite values are exact rationals: the binary rounding of doubles and
  their overflow are not modelled, and the two zeros are one value, so a quotient by
  zero takes its sign from the dividend alone.
\<close>

datatype jsnum = NaN | PInf | NInf | Fin rat

fun js_neg :: "jsnum \<Rightarrow> jsnum" where
  "js_neg NaN = NaN"
| "js_neg PInf = NInf"
| "js_neg NInf = PInf"
| "js_neg (Fin a) = Fin (- a)"

fun js_add :: "jsnum \<Rightarrow> jsnum \<Rightarrow> jsnum" where
  "js_add NaN y = NaN"
| "js_add x NaN = NaN"
| "js_add (Fin a) (Fin b) = Fin (a + b)"
| "js_add (Fin a) y = y"
| "js_add x (Fin b) = x"
| "js_add PInf PInf = PInf"
| "js_add NInf NInf = NInf"
| "js_add PInf NInf = NaN"
| "js_add NInf PInf = NaN"

definition js_sub :: "jsnum \<Rightarrow> jsnum \<Rightarrow> jsnum" where
  "js_sub x y = js_add x (js_neg y)"

text \<open>The sign of a product or quotient with an infinite operand.\<close>

definition signed_inf :: "bool \<Rightarrow> jsnum" where
  "signed_inf positive = (if positive then PInf else NInf)"

fun js_mul :: "jsnum \<Rightarrow> jsnum \<Rightarrow> jsnum" where
  "js_mul NaN y = NaN"
| "js_mul x NaN = NaN"
| "js_mul (Fin a) (Fin b) = Fin (a * b)"
| "js_mul (Fin a) PInf = (if a = 0 then NaN else signed_inf (0 < a))"
| "js_mul (Fin a) NInf = (if a = 0 then NaN else signed_inf (a < 0))"
| "js_mul PInf (Fin b) = (if b = 0 then NaN else signed_inf (0 < b))"
| "js_mul NInf (Fin b) = (if b = 0 then NaN else signed_inf (b < 0))"
| "js_mul PInf PInf = PInf"
| "js_mul NInf NInf = PInf"
| "js_mul PInf NInf = NInf"
| "js_mul NInf PInf = NInf"

fun js_div :: "jsnum \<Rightarrow> jsnum \<Rightarrow> jsnum" where
  "js_div NaN y = NaN"
| "js_div x NaN = NaN"
| "js_div (Fin a) (Fin b) =
     (if b = 0 then (if a = 0 then NaN else signed_inf (0 < a)) else Fin (a / b))"
| "js_div (Fin a) y = Fin 0"
| "js_div PInf (Fin b) = signed_inf (0 \<le> b)"
| "js_div NInf (Fin b) = signed_inf (b < 0)"
| "js_div x y = NaN"

fun js_abs :: "jsnum \<Rightarrow> jsnum" where
  "js_abs NaN = NaN"
| "js_abs PInf = PInf"
| "js_abs NInf = PInf"
| "js_abs (Fin a) = Fin \<bar>a\<bar>"

text \<open>\<open>Math.round\<close>: the nearest integer, a tie going up.\<close>

fun js_round :: "jsnum \<Rightarrow> jsnum" where
  "js_round (Fin a) = Fin (of_int \<lfloor>a + 1 / 2\<rfloor>)"
| "js_round x = x"

text \<open>The comparison \<open>x < y\<close>: false as soon as one side is not a number.\<close>

fun js_lt :: "jsnum \<Rightarrow> jsnum \<Rightarrow> bool" where
  "js_lt NaN y = False"
| "js_lt x NaN = False"
| "js_lt (Fin a) (Fin b) = (a < b)"
| "js_lt x NInf = False"
| "js_lt PInf y = False"
| "js_lt x y = True"

definition isNaN :: "jsnum \<Rightarrow> bool" where
  "isNaN x = (x = NaN)"



section \<open>Data model\<close>

datatype LineItemType = Service | Expense

record LineItem =
  item_id :: string
  item_type :: LineItemType
  date :: string
  description :: string
  hours :: jsnum
  rate :: jsnum
  amount :: jsnum


section \<open>Calculations\<close>

definition calculateLineAmount :: "jsnum \<Rightarrow> jsnum \<Rightarrow> jsnum" where
  "calculateLineAmount h r = js_round (js_mul h r)"

text \<open>The result of the reverse calculation, and the loop's running best option.\<close>

record Metrics =
  m_hours :: jsnum
  m_rate :: jsnum
  m_amount :: jsnum

record BestOption = Metrics +
  diff :: jsnum

definition rateOptions :: "jsnum list" where
  "rateOptions = [Fin 60, Fin 65]"

text \<open>One pass of the loop body for a rate: the candidate, then the strict update.\<close>

definition candidate :: "jsnum \<Rightarrow> jsnum \<Rightarrow> BestOption" where
  "candidate targetAmount r =
     (let h0 = js_round (js_div targetAmount r);
          h = (if js_lt h0 (Fin 1) then Fin 1 else h0);
          calculatedAmount = js_mul h r
      in \<lparr>m_hours = h, m_rate = r, m_amount = calculatedAmount,
          diff = js_abs (js_sub targetAmount calculatedAmount)\<rparr>)"

definition consider_rate :: "jsnum \<Rightarrow> BestOption \<Rightarrow> jsnum \<Rightarrow> BestOption" where
  "consider_rate targetAmount bestOption r =
     (let c = candidate targetAmount r
      in if js_lt (diff c) (diff bestOption) then c else bestOption)"

definition calculateMetricsFromAmount :: "jsnum \<Rightarrow> Metrics" where
  "calculateMetricsFromAmount targetAmount =
     (if targetAmount = Fin 0 then \<lparr>m_hours = Fin 0, m_rate = Fin 65, m_amount = Fin 0\<rparr>
      else
        let bestOption = foldl (consider_rate targetAmount)
              \<lparr>m_hours = Fin 0, m_rate = Fin 65, m_amount = Fin 0, diff = PInf\<rparr> rateOptions
        in \<lparr>m_hours = m_hours bestOption, m_rate = m_rate bestOption,
            m_amount = m_amount bestOption\<rparr>)"







section \<open>Strings\<close>

text \<open>
  Strings are lists of 8-bit characters; only the ASCII letters have a lower case and
  only the ASCII blanks count as white space.
\<close>

definition is_digit :: "char \<Rightarrow> bool" where
  "is_digit c = (c \<in> set ''0123456789'')"

definition lower_char :: "char \<Rightarrow> char" where
  "lower_char c =
     (let n = (of_char c :: nat) in if 65 \<le> n \<and> n \<le> 90 then char_of (n + 32) else c)"

definition toLowerCase :: "string \<Rightarrow> string" where
  "toLowerCase s = map lower_char s"

text \<open>\<open>s.includes(t)\<close>: \<open>t\<close> occurs in \<open>s\<close> as a contiguous run.\<close>

definition str_includes :: "string \<Rightarrow> string \<Rightarrow> bool" where
  "str_includes s t = sublist t s"

text \<open>\<open>s.split(c)\<close> for a one-character separator; the result is never empty.\<close>

fun split_on :: "char \<Rightarrow> string \<Rightarrow> string list" where
  "split_on c [] = [] # []"
| "split_on c (x # xs) =
     (if x = c then [] # split_on c xs
      else (case split_on c xs of [] \<Rightarrow> [x] # [] | p # ps \<Rightarrow> (x # p) # ps))"

text \<open>An element of a destructured array inside a template: absent prints as \<open>undefined\<close>.\<close>

definition part :: "string list \<Rightarrow> nat \<Rightarrow> string" where
  "part ps i = (if i < length ps then ps ! i else ''undefined'')"

definition padStart2 :: "string \<Rightarrow> string" where
  "padStart2 s = replicate (2 - length s) (CHR ''0'') @ s"

section \<open>Dates\<close>

text \<open>The test \<open>/^\d{4}-\d{2}-\d{2}$/\<close>.\<close>

definition is_iso_date :: "string \<Rightarrow> bool" where
  "is_iso_date s =
     (length s = 10 \<and> list_all is_digit (take 4 s) \<and> s ! 4 = CHR ''-'' \<and>
      list_all is_digit (take 2 (drop 5 s)) \<and> s ! 7 = CHR ''-'' \<and>
      list_all is_digit (drop 8 s))"

definition formatDateForDisplay :: "string \<Rightarrow> string" where
  "formatDateForDisplay dateStr =
     (if dateStr = [] then []
      else if is_iso_date dateStr then
        (let ps = split_on (CHR ''-'') dateStr
         in part ps 2 @ ''/'' @ part ps 1 @ ''/'' @ part ps 0)
      else dateStr)"

definition is_sep :: "char \<Rightarrow> bool" where
  "is_sep c = (c = CHR ''/'' \<or> c = CHR ''-'')"

text \<open>
  The match \<open>/^(\d{1,2})[/-](\d{1,2})[/-](\d{4})$/\<close>: the three groups. A run of
  digits is followed by a separator only if the run is maximal, so a greedy group never
  gives a digit back. \<open>digit_group\<close> reads one group \<open>(\d{1,2})[/-]\<close> and returns it
  with the rest of the text.
\<close>

definition digit_group :: "string \<Rightarrow> (string \<times> string) option" where
  "digit_group s =
     (if length (takeWhile is_digit s) = 1 \<or> length (takeWhile is_digit s) = 2 then
        (case dropWhile is_digit s of
           [] \<Rightarrow> None
         | c # r \<Rightarrow> if is_sep c then Some (takeWhile is_digit s, r) else None)
      else None)"

definition dmyMatch :: "string \<Rightarrow> (string \<times> string \<times> string) option" where
  "dmyMatch s =
     (case digit_group s of
        None \<Rightarrow> None
      | Some (d, r1) \<Rightarrow>
          (case digit_group r1 of
             None \<Rightarrow> None
           | Some (m, y) \<Rightarrow>
               if length y = 4 \<and> list_all is_digit y then Some (d, m, y) else None))"

text \<open>
  The host's date parser is a parameter: \<open>Date_parse\<close> gives the time stamp, \<open>None\<close>
  for not-a-number, and \<open>toISOString\<close> prints a time stamp.
\<close>

record Host =
  Date_parse :: "string \<Rightarrow> int option"
  toISOString :: "int \<Rightarrow> string"

definition normalizeDateToISO :: "Host \<Rightarrow> string \<Rightarrow> string" where
  "normalizeDateToISO host dateStr =
     (if dateStr = [] then []
      else if is_iso_date dateStr then dateStr
      else (case dmyMatch dateStr of
              Some (d, m, y) \<Rightarrow> y @ ''-'' @ padStart2 m @ ''-'' @ padStart2 d
            | None \<Rightarrow>
                (case Date_parse host dateStr of
                   Some timestamp \<Rightarrow> part (split_on (CHR ''T'') (toISOString host timestamp)) 0
                 | None \<Rightarrow> dateStr)))"

section \<open>Reading numbers from text\<close>

definition is_space :: "char \<Rightarrow> bool" where
  "is_space c = ((of_char c :: nat) \<in> {9, 10, 11, 12, 13, 32})"

definition digits_val :: "string \<Rightarrow> nat" where
  "digits_val ds = foldl (\<lambda>acc c. 10 * acc + (of_char c - 48)) 0 ds"

text \<open>The exponent part \<open>e\<close>, sign, digits at the head of a text; zero when there is none.\<close>

definition exponent_of :: "string \<Rightarrow> int" where
  "exponent_of s =
     (case s of
        [] \<Rightarrow> 0
      | c # r \<Rightarrow>
          if c = CHR ''e'' \<or> c = CHR ''E'' then
            (let negative = (case r of [] \<Rightarrow> False | x # _ \<Rightarrow> x = CHR ''-'');
                 ds = (case r of
                         [] \<Rightarrow> []
                       | x # r' \<Rightarrow> if x = CHR ''-'' \<or> x = CHR ''+'' then r' else r);
                 e = takeWhile is_digit ds
             in if e = [] then 0
                else if negative then - int (digits_val e) else int (digits_val e))
          else 0)"

text \<open>
  \<open>parseFloat\<close>: leading white space is dropped, then the longest prefix that is a
  decimal literal is read; no such prefix gives not-a-number.
\<close>

definition parseFloat :: "string \<Rightarrow> jsnum" where
  "parseFloat inputString =
     (let trimmed = dropWhile is_space inputString;
          negative = (case trimmed of [] \<Rightarrow> False | c # _ \<Rightarrow> c = CHR ''-'');
          unsigned = (case trimmed of
                        [] \<Rightarrow> []
                      | c # r \<Rightarrow> if c = CHR ''-'' \<or> c = CHR ''+'' then r else trimmed)
      in if prefix ''Infinity'' unsigned then signed_inf (\<not> negative)
         else
           (let ip = takeWhile is_digit unsigned;
                r1 = dropWhile is_digit unsigned;
                has_dot = (case r1 of [] \<Rightarrow> False | c # _ \<Rightarrow> c = CHR ''.'');
                fp = (if has_dot then takeWhile is_digit (tl r1) else []);
                r2 = (if has_dot then dropWhile is_digit (tl r1) else r1)
            in if ip = [] \<and> fp = [] then NaN
               else
                 (let mantissa = of_nat (digits_val ip)
                        + of_nat (digits_val fp) / 10 ^ length fp;
                      e = exponent_of r2;
                      v = (if 0 \<le> e then mantissa * 10 ^ nat e else mantissa / 10 ^ nat (- e))
                  in Fin (if negative then - v else v))))"

text \<open>\<open>parseFloat\<close> of a value that may be \<open>undefined\<close>.\<close>

definition parseFloat_opt :: "string option \<Rightarrow> jsnum" where
  "parseFloat_opt v = (case v of None \<Rightarrow> NaN | Some s \<Rightarrow> parseFloat s)"

section \<open>Import of a row\<close>

text \<open>
  A parsed row: the column names in their order, each with its text. \<open>row[c]\<close> is
  \<open>map_of row c\<close>.
\<close>

type_synonym Row = "(string \<times> string) list"

fun exact_lookup :: "Row \<Rightarrow> string list \<Rightarrow> string option" where
  "exact_lookup row [] = None"
| "exact_lookup row (c # cs) =
     (case map_of row c of
        Some v \<Rightarrow> if v \<noteq> [] then Some v else exact_lookup row cs
      | None \<Rightarrow> exact_lookup row cs)"

fun insensitive_lookup :: "Row \<Rightarrow> string list \<Rightarrow> string option" where
  "insensitive_lookup row [] = None"
| "insensitive_lookup row (c # cs) =
     (case List.find (\<lambda>k. toLowerCase k = toLowerCase c) (map fst row) of
        Some foundKey \<Rightarrow>
          (case map_of row foundKey of
             Some v \<Rightarrow> if foundKey \<noteq> [] \<and> v \<noteq> [] then Some v
                       else insensitive_lookup row cs
           | None \<Rightarrow> insensitive_lookup row cs)
      | None \<Rightarrow> insensitive_lookup row cs)"

definition getRowValue :: "Row \<Rightarrow> string list \<Rightarrow> string option" where
  "getRowValue row candidates =
     (case exact_lookup row candidates of
        Some v \<Rightarrow> Some v
      | None \<Rightarrow> insensitive_lookup row candidates)"

definition expense_keywords :: "string list" where
  "expense_keywords =
     [''material'', ''mitre 10'', ''bunnings'', ''placemakers'', ''carters'', ''itm'',
      ''fuel'', ''parking'', ''expense'', ''reimburse'', ''cost'', ''hardware'', ''fasten'',
      ''screw'', ''nail'', ''timber'', ''concrete'', ''paint'', ''hire'', ''consumable'',
      ''store'', ''merchant'']"

text \<open>The columns of a row once read.\<close>

record RowFields =
  rowAmount :: jsnum
  rowHours :: jsnum
  rowRate :: jsnum
  rawDesc :: "string option"
  rawDate :: "string option"
  explicitType :: "string option"

definition readRow :: "Row \<Rightarrow> RowFields" where
  "readRow row =
     \<lparr>rowAmount = parseFloat_opt
        (getRowValue row [''amount'', ''total'', ''line total'', ''gross'', ''amt'']),
      rowHours = parseFloat_opt
        (getRowValue row
           [''hours'', ''hrs'', ''quantity'', ''qty'', ''count'', ''quantity (hrs)'']),
      rowRate = parseFloat_opt
        (getRowValue row
           [''rate'', ''unit price'', ''cost'', ''price'', ''unit cost'', ''rate ($)'']),
      rawDesc = getRowValue row
        [''description'', ''item'', ''activity'', ''details'', ''memo'', ''notes'', ''task''],
      rawDate = getRowValue row
        [''date'', ''transaction date'', ''service date'', ''work date'', ''invoice date''],
      explicitType = getRowValue row [''type'', ''category'']\<rparr>"

text \<open>
  The test of the lowered description against the alternation of the keywords: one of
  them occurs in it.
\<close>

definition isImplicitExpense :: "string \<Rightarrow> bool" where
  "isImplicitExpense lowerDesc = list_ex (\<lambda>k. str_includes lowerDesc k) expense_keywords"

definition isExplicitExpense :: "string option \<Rightarrow> bool" where
  "isExplicitExpense explicit =
     (case explicit of
        None \<Rightarrow> False
      | Some t \<Rightarrow> str_includes (toLowerCase t) ''expense'')"

definition detectType :: "string \<Rightarrow> string option \<Rightarrow> LineItemType" where
  "detectType desc explicit =
     (let lowerDesc = toLowerCase desc
      in if isExplicitExpense explicit \<or> isImplicitExpense lowerDesc then Expense
         else Service)"

text \<open>The numbers of the item: hours, rate and amount, from the three columns.\<close>

definition resolveNumbers :: "LineItemType \<Rightarrow> jsnum \<Rightarrow> jsnum \<Rightarrow> jsnum \<Rightarrow> Metrics" where
  "resolveNumbers t rAmount rHours rRate =
     (if t = Expense then
        (if \<not> isNaN rAmount then
           (if \<not> isNaN rRate then
              (if \<not> isNaN rHours then
                 \<lparr>m_hours = rHours, m_rate = rRate, m_amount = rAmount\<rparr>
               else
                 (let q = js_div rAmount rRate
                  in \<lparr>m_hours = (if isNaN q \<or> q = Fin 0 then Fin 1 else q),
                      m_rate = rRate, m_amount = rAmount\<rparr>))
            else
              (let q = (if \<not> isNaN rHours then rHours else Fin 1)
               in \<lparr>m_hours = q, m_rate = js_div rAmount q, m_amount = rAmount\<rparr>))
         else
           (if \<not> isNaN rHours \<and> \<not> isNaN rRate then
              \<lparr>m_hours = rHours, m_rate = rRate, m_amount = js_mul rHours rRate\<rparr>
            else \<lparr>m_hours = Fin 0, m_rate = Fin 65, m_amount = Fin 0\<rparr>))
      else
        (if \<not> isNaN rAmount \<and> rAmount \<noteq> Fin 0 then calculateMetricsFromAmount rAmount
         else
           (let h = (if \<not> isNaN rHours then rHours else Fin 0);
                r = (if \<not> isNaN rRate \<and> js_lt (Fin 0) rRate then rRate else Fin 65)
            in \<lparr>m_hours = h, m_rate = r, m_amount = calculateLineAmount h r\<rparr>)))"

text \<open>The item of a row once read; the fresh identifier is a parameter.\<close>

definition buildItem :: "Host \<Rightarrow> string \<Rightarrow> RowFields \<Rightarrow> LineItem" where
  "buildItem host newId f =
     (let desc = (case rawDesc f of None \<Rightarrow> [] | Some d \<Rightarrow> d);
          rowDate = normalizeDateToISO host (case rawDate f of None \<Rightarrow> [] | Some d \<Rightarrow> d);
          t = detectType desc (explicitType f);
          final = resolveNumbers t (rowAmount f) (rowHours f) (rowRate f)
      in \<lparr>item_id = newId, item_type = t, date = rowDate,
          description =
            (if desc \<noteq> [] then desc
             else if t = Service then ''Residential Build'' else ''Materials''),
          hours = m_hours final, rate = m_rate final, amount = m_amount final\<rparr>)"

definition importRow :: "Host \<Rightarrow> string \<Rightarrow> Row \<Rightarrow> LineItem" where
  "importRow host newId row = buildItem host newId (readRow row)"



section \<open>Editing an item\<close>






text \<open>A host whose date parser reads no text, for the concrete cases.\<close>

definition plain_host :: Host where
  "plain_host = \<lparr>Date_parse = (\<lambda>s. None), toISOString = (\<lambda>t. [])\<rparr>"

section \<open>The reverse calculation on finite targets\<close>















section \<open>The forward calculation\<close>




section \<open>The totals\<close>






section \<open>Edits and the commit of an amount\<close>





section \<open>The two date functions\<close>

lemma is_digit_not_sep: "is_digit c \<Longrightarrow> c \<noteq> CHR ''-'' \<and> c \<noteq> CHR ''/''"
  by (auto simp: is_digit_def)

lemma split_on_digits_end: "list_all is_digit p \<Longrightarrow> split_on (CHR ''-'') p = [p]"
  by (induction p) (auto dest: is_digit_not_sep)

lemma split_on_digits:
  "list_all is_digit p \<Longrightarrow>
     split_on (CHR ''-'') (p @ CHR ''-'' # rest) = p # split_on (CHR ''-'') rest"
  by (induction p) (auto dest: is_digit_not_sep)

lemma padStart2_length: "length m = 1 \<or> length m = 2 \<Longrightarrow> length (padStart2 m) = 2"
  by (auto simp: padStart2_def)

lemma padStart2_digits:
  assumes "list_all is_digit m"
  shows "list_all is_digit (padStart2 m)"
proof -
  have "is_digit (CHR ''0'')" by (simp add: is_digit_def)
  then have "list_all is_digit (replicate n (CHR ''0''))" for n
    by (induction n) simp_all
  with assms show ?thesis by (simp add: padStart2_def)
qed

text \<open>What a match of the day-month-year pattern gives.\<close>

lemma digit_group_SomeD:
  assumes "digit_group s = Some (d, r)"
  shows "\<exists>c. s = d @ c # r \<and> is_sep c" and "list_all is_digit d"
    and "length d = 1 \<or> length d = 2"
proof -
  have len: "length (takeWhile is_digit s) = 1 \<or> length (takeWhile is_digit s) = 2"
    using assms unfolding digit_group_def by (simp split: if_splits)
  then have cs: "(case dropWhile is_digit s of [] \<Rightarrow> None
      | c # r \<Rightarrow> if is_sep c then Some (takeWhile is_digit s, r) else None) = Some (d, r)"
    using assms unfolding digit_group_def by (simp only: if_True)
  then obtain c where dw: "dropWhile is_digit s = c # r" and c: "is_sep c"
    and d: "d = takeWhile is_digit s"
    by (cases "dropWhile is_digit s") (simp_all split: if_splits)
  have "s = takeWhile is_digit s @ dropWhile is_digit s" by simp
  then have "s = d @ c # r" unfolding dw d .
  with c show "\<exists>c. s = d @ c # r \<and> is_sep c" by blast
  show "list_all is_digit d" unfolding d list_all_iff by (blast dest: set_takeWhileD)
  show "length d = 1 \<or> length d = 2" unfolding d by (rule len)
qed

lemma dmyMatch_SomeD:
  assumes "dmyMatch s = Some (d, m, y)"
  shows "\<exists>c1 c2. s = d @ c1 # m @ c2 # y \<and> is_sep c1 \<and> is_sep c2"
    and "list_all is_digit d" and "list_all is_digit m" and "list_all is_digit y"
    and "length d = 1 \<or> length d = 2" and "length m = 1 \<or> length m = 2" and "length y = 4"
proof -
  obtain d' r1 where g1': "digit_group s = Some (d', r1)"
    using assms unfolding dmyMatch_def by (cases "digit_group s") auto
  obtain m' y' where g2': "digit_group r1 = Some (m', y')"
    using assms by (cases "digit_group r1") (auto simp: dmyMatch_def g1')
  have "(if length y' = 4 \<and> list_all is_digit y' then Some (d', m', y') else None)
      = Some (d, m, y)"
    using assms by (simp add: dmyMatch_def g1' g2')
  then have y: "length y = 4" "list_all is_digit y" and eq: "d' = d" "m' = m" "y' = y"
    by (simp_all split: if_splits)
  have g1: "digit_group s = Some (d, r1)" using g1' eq by simp
  have g2: "digit_group r1 = Some (m, y)" using g2' eq by simp
  from digit_group_SomeD(1) [OF g1] obtain c1 where s: "s = d @ c1 # r1" and c1: "is_sep c1"
    by blast
  from digit_group_SomeD(1) [OF g2] obtain c2 where r: "r1 = m @ c2 # y" and c2: "is_sep c2"
    by blast
  from s r c1 c2 show "\<exists>c1 c2. s = d @ c1 # m @ c2 # y \<and> is_sep c1 \<and> is_sep c2" by blast
  show "list_all is_digit d" by (rule digit_group_SomeD(2) [OF g1])
  show "list_all is_digit m" by (rule digit_group_SomeD(2) [OF g2])
  show "list_all is_digit y" by (rule y(2))
  show "length d = 1 \<or> length d = 2" by (rule digit_group_SomeD(3) [OF g1])
  show "length m = 1 \<or> length m = 2" by (rule digit_group_SomeD(3) [OF g2])
  show "length y = 4" by (rule y(1))
qed

lemma dmyMatch_not_iso:
  assumes "dmyMatch s = Some (d, m, y)"
  shows "\<not> is_iso_date s" and "s \<noteq> []"
proof -
  from dmyMatch_SomeD(1) [OF assms] obtain c1 c2
    where s: "s = d @ c1 # m @ c2 # y" and c1: "is_sep c1" by blast
  have len: "length d = 1 \<or> length d = 2" by (rule dmyMatch_SomeD(5) [OF assms])
  show "s \<noteq> []" using s by simp
  show "\<not> is_iso_date s"
  proof
    assume "is_iso_date s"
    then have "list_all is_digit (take 4 s)" by (simp add: is_iso_date_def)
    moreover have "c1 \<in> set (take 4 s)" using len unfolding s by auto
    ultimately have "is_digit c1" by (simp add: list_all_iff)
    with c1 show False by (auto simp: is_sep_def dest: is_digit_not_sep)
  qed
qed

text \<open>The canonical text built from three digit groups, and its display form.\<close>

lemma iso_of_parts:
  assumes "list_all is_digit y" "length y = 4"
    and "list_all is_digit pm" "length pm = 2"
    and "list_all is_digit pd" "length pd = 2"
  shows "is_iso_date (y @ ''-'' @ pm @ ''-'' @ pd)"
    and "formatDateForDisplay (y @ ''-'' @ pm @ ''-'' @ pd) = pd @ ''/'' @ pm @ ''/'' @ y"
proof -
  show iso: "is_iso_date (y @ ''-'' @ pm @ ''-'' @ pd)"
    using assms by (simp add: is_iso_date_def nth_append)
  have "split_on (CHR ''-'') (y @ CHR ''-'' # pm @ CHR ''-'' # pd) = [y, pm, pd]"
    using assms by (simp add: split_on_digits split_on_digits_end)
  then show "formatDateForDisplay (y @ ''-'' @ pm @ ''-'' @ pd) = pd @ ''/'' @ pm @ ''/'' @ y"
    using iso by (simp add: formatDateForDisplay_def part_def)
qed

text \<open>
  C7. \<open>normalizeDateToISO\<close> returns a text of the canonical shape as it is; a text of
  the shape day, separator, month, separator, four-digit year is re-ordered to year,
  month, day with day and month padded to two digits, and its display form is the padded
  day, month and the year again; a text that matches neither shape and that the host's
  parser rejects is returned as it is, and the empty text gives the empty text.
  \<open>formatDateForDisplay\<close> returns every text that is not of the canonical shape as it is.
\<close>

theorem date_normalizer_round_trip:
  "(is_iso_date s \<longrightarrow> normalizeDateToISO host s = s) \<and>
   (dmyMatch s = Some (d, m, y) \<longrightarrow>
      normalizeDateToISO host s = y @ ''-'' @ padStart2 m @ ''-'' @ padStart2 d \<and>
      is_iso_date (normalizeDateToISO host s) \<and>
      formatDateForDisplay (normalizeDateToISO host s) =
        padStart2 d @ ''/'' @ padStart2 m @ ''/'' @ y) \<and>
   (\<not> is_iso_date s \<and> dmyMatch s = None \<and> Date_parse host s = None \<longrightarrow>
      normalizeDateToISO host s = s) \<and>
   normalizeDateToISO host [] = [] \<and>
   (\<not> is_iso_date s \<longrightarrow> formatDateForDisplay s = s) \<and>
   normalizeDateToISO host ''2024-03-15'' = ''2024-03-15'' \<and>
   normalizeDateToISO host ''15/03/2024'' = ''2024-03-15'' \<and>
   formatDateForDisplay (normalizeDateToISO host ''15/03/2024'') = ''15/03/2024''"
proof (intro conjI impI)
  assume "is_iso_date s"
  then show "normalizeDateToISO host s = s" by (simp add: normalizeDateToISO_def)
next
  assume a: "dmyMatch s = Some (d, m, y)"
  have n: "normalizeDateToISO host s = y @ ''-'' @ padStart2 m @ ''-'' @ padStart2 d"
    using a dmyMatch_not_iso [OF a] by (simp add: normalizeDateToISO_def)
  note parts = iso_of_parts [OF dmyMatch_SomeD(4) [OF a] dmyMatch_SomeD(7) [OF a]
      padStart2_digits [OF dmyMatch_SomeD(3) [OF a]] padStart2_length [OF dmyMatch_SomeD(6) [OF a]]
      padStart2_digits [OF dmyMatch_SomeD(2) [OF a]] padStart2_length [OF dmyMatch_SomeD(5) [OF a]]]
  show "normalizeDateToISO host s = y @ ''-'' @ padStart2 m @ ''-'' @ padStart2 d" by (rule n)
  show "is_iso_date (normalizeDateToISO host s)" unfolding n by (rule parts(1))
  show "formatDateForDisplay (normalizeDateToISO host s) =
        padStart2 d @ ''/'' @ padStart2 m @ ''/'' @ y"
    unfolding n by (rule parts(2))
next
  assume "\<not> is_iso_date s \<and> dmyMatch s = None \<and> Date_parse host s = None"
  then show "normalizeDateToISO host s = s" by (simp add: normalizeDateToISO_def)
next
  show "normalizeDateToISO host [] = []" by (simp add: normalizeDateToISO_def)
next
  assume "\<not> is_iso_date s"
  then show "formatDateForDisplay s = s" by (simp add: formatDateForDisplay_def)
next
  show "normalizeDateToISO host ''2024-03-15'' = ''2024-03-15''" by code_simp
  show "normalizeDateToISO host ''15/03/2024'' = ''2024-03-15''" by code_simp
  show "formatDateForDisplay (normalizeDateToISO host ''15/03/2024'') = ''15/03/2024''"
    by code_simp
qed

text \<open>
  The theorem at a canonical text, at \<open>5-3/2024\<close>, at a text no shape matches and the
  host rejects, and at a text that is not canonical.
\<close>

theorem date_normalizer_round_trip_witness:
  "normalizeDateToISO plain_host ''2024-12-01'' = ''2024-12-01'' \<and>
   normalizeDateToISO plain_host ''5-3/2024'' = ''2024-03-05'' \<and>
   formatDateForDisplay (normalizeDateToISO plain_host ''5-3/2024'') = ''05/03/2024'' \<and>
   normalizeDateToISO plain_host ''next tuesday'' = ''next tuesday'' \<and>
   formatDateForDisplay ''next tuesday'' = ''next tuesday''"
proof -
  have a: "is_iso_date ''2024-12-01''" by code_simp
  have b: "dmyMatch ''5-3/2024'' = Some (''5'', ''3'', ''2024'')" by code_simp
  have c: "\<not> is_iso_date ''next tuesday'' \<and> dmyMatch ''next tuesday'' = None \<and>
      Date_parse plain_host ''next tuesday'' = None"
    by code_simp
  have p: "padStart2 ''5'' = ''05''" "padStart2 ''3'' = ''03''" by code_simp+
  from date_normalizer_round_trip [where s = "''2024-12-01''" and host = plain_host] a
  have 1: "normalizeDateToISO plain_host ''2024-12-01'' = ''2024-12-01''" by blast
  from date_normalizer_round_trip [where s = "''5-3/2024''" and d = "''5''" and m = "''3''"
      and y = "''2024''" and host = plain_host] b
  have "normalizeDateToISO plain_host ''5-3/2024'' =
      ''2024'' @ ''-'' @ padStart2 ''3'' @ ''-'' @ padStart2 ''5''"
    and "formatDateForDisplay (normalizeDateToISO plain_host ''5-3/2024'') =
      padStart2 ''5'' @ ''/'' @ padStart2 ''3'' @ ''/'' @ ''2024''"
    by blast+
  then have 2: "normalizeDateToISO plain_host ''5-3/2024'' = ''2024-03-05''"
    and 3: "formatDateForDisplay (normalizeDateToISO plain_host ''5-3/2024'') = ''05/03/2024''"
    unfolding p by simp_all
  from date_normalizer_round_trip [where s = "''next tuesday''" and host = plain_host] c
  have 4: "normalizeDateToISO plain_host ''next tuesday'' = ''next tuesday''"
    and 5: "formatDateForDisplay ''next tuesday'' = ''next tuesday''"
    by blast+
  from 1 2 3 4 5 show ?thesis by simp
qed


section \<open>Classification and numbers of an imported row\<close>



text \<open>
  C6: the code at two expense rows with a zero divisor. With amount 45 and rate 0 the
  derived quantity 45 / 0 is Infinity, which is neither not-a-number nor zero, so it is
  kept; with amount 45 and quantity 0 the derived rate 45 / 0 is Infinity; with amount 0
  and quantity 0 the derived rate is not a number.
\<close>

theorem import_zero_divisor_not_finite:
  "importRow host nid
     [(''description'', ''Bunnings screws''), (''amount'', ''45''), (''rate'', ''0'')] =
     \<lparr>item_id = nid, item_type = Expense, date = [], description = ''Bunnings screws'',
      hours = PInf, rate = Fin 0, amount = Fin 45\<rparr> \<and>
   importRow host nid
     [(''description'', ''Bunnings screws''), (''amount'', ''45''), (''quantity'', ''0'')] =
     \<lparr>item_id = nid, item_type = Expense, date = [], description = ''Bunnings screws'',
      hours = Fin 0, rate = PInf, amount = Fin 45\<rparr> \<and>
   importRow host nid
     [(''description'', ''Bunnings screws''), (''amount'', ''0''), (''quantity'', ''0'')] =
     \<lparr>item_id = nid, item_type = Expense, date = [], description = ''Bunnings screws'',
      hours = Fin 0, rate = NaN, amount = Fin 0\<rparr>"
  by code_simp


section \<open>A second pass of the import\<close>












end
